theory Spec2Isabelle
  imports Complex_Main "HOL-Library.Word" "HOL-Library.Sublist"
begin

section \<open>Python values, exceptions and byte strings\<close>

text \<open>
  The program is \<^verbatim>\<open>predict.py\<close>: a predictor that pulls server-sent events from an
  upstream text-to-speech call, collects the base64 audio they carry, and wraps the
  collected PCM bytes in a WAV container.  A \<^verbatim>\<open>bytes\<close> object is a list of 8-bit words, a
  \<^verbatim>\<open>str\<close> is a \<^typ>\<open>string\<close> (code points below 256), a Python \<^verbatim>\<open>int\<close> is an \<^typ>\<open>int\<close>.
\<close>

type_synonym byte = "8 word"
type_synonym bytes = "byte list"

text \<open>
  An exception is its class and the text \<^verbatim>\<open>str(e)\<close>.  \<open>UpstreamError\<close> stands for whatever
  the SDK or the transport raises (\<^verbatim>\<open>TencentCloudSDKException\<close>, connection errors, ...).
\<close>

datatype exn_class =
    JSONDecodeError | KeyError | AttributeError | TypeError | ValueError
  | BinasciiError | StructError | WaveError | UpstreamError

datatype exn = Exn (cls: exn_class) (str: string)

text \<open>What \<^verbatim>\<open>json.loads\<close> can return.  A dict is an association list with distinct keys.\<close>

datatype pyfloat = Float rat | PosInf | NegInf | NaN

datatype json =
    JNull | JBool bool | JInt int | JFloat pyfloat | JStr string
  | JList "json list" | JDict "(string \<times> json) list"

text \<open>Python truthiness, as \<^verbatim>\<open>if x\<close> and \<^verbatim>\<open>x and y\<close> test it.\<close>

fun truthy :: "json \<Rightarrow> bool" where
  "truthy JNull = False"
| "truthy (JBool b) = b"
| "truthy (JInt i) = (i \<noteq> 0)"
| "truthy (JFloat f) = (f \<noteq> Float 0)"
| "truthy (JStr s) = (s \<noteq> [])"
| "truthy (JList xs) = (xs \<noteq> [])"
| "truthy (JDict kvs) = (kvs \<noteq> [])"

fun type_name :: "json \<Rightarrow> string" where
  "type_name JNull = ''NoneType''"
| "type_name (JBool b) = ''bool''"
| "type_name (JInt i) = ''int''"
| "type_name (JFloat f) = ''float''"
| "type_name (JStr s) = ''str''"
| "type_name (JList xs) = ''list''"
| "type_name (JDict kvs) = ''dict''"

text \<open>\<^verbatim>\<open>d.get(k)\<close> (\<^verbatim>\<open>None\<close> when the key is absent) and \<^verbatim>\<open>d[k]\<close> (\<^verbatim>\<open>KeyError\<close> when it is).\<close>

definition dict_get :: "(string \<times> json) list \<Rightarrow> string \<Rightarrow> json" where
  "dict_get d k = (case map_of d k of None \<Rightarrow> JNull | Some v \<Rightarrow> v)"

definition dict_item :: "(string \<times> json) list \<Rightarrow> string \<Rightarrow> exn + json" where
  "dict_item d k =
     (case map_of d k of
        None \<Rightarrow> Inl (Exn KeyError ([CHR 0x27] @ k @ [CHR 0x27]))
      | Some v \<Rightarrow> Inr v)"

definition ascii :: "string \<Rightarrow> bytes" where
  "ascii s = map (\<lambda>c. of_nat (of_char c)) s"

text \<open>\<^verbatim>\<open>str(n)\<close> for a natural number.\<close>

fun str_of_nat :: "nat \<Rightarrow> string" where
  "str_of_nat n =
     (if n < 10 then [char_of (48 + n)]
      else str_of_nat (n div 10) @ [char_of (48 + n mod 10)])"

declare str_of_nat.simps [simp del]

text \<open>\<^verbatim>\<open>str.strip()\<close>: the characters below 256 for which \<^verbatim>\<open>isspace()\<close> holds are removed
  at both ends.\<close>

definition isspace :: "char \<Rightarrow> bool" where
  "isspace c =
     (let n = (of_char c :: nat)
      in (9 \<le> n \<and> n \<le> 13) \<or> (28 \<le> n \<and> n \<le> 32) \<or> n = 133 \<or> n = 160)"

definition strip :: "string \<Rightarrow> string" where
  "strip s = rev (dropWhile isspace (rev (dropWhile isspace s)))"

section \<open>The standard library used by the program\<close>

text \<open>The modules are modelled as they are in CPython 3.11.\<close>

subsection \<open>\<^verbatim>\<open>base64.b64decode(s)\<close> with the default \<^verbatim>\<open>validate=False\<close>\<close>

definition b64_digit :: "char \<Rightarrow> nat option" where
  "b64_digit c =
     (let n = (of_char c :: nat)
      in if 65 \<le> n \<and> n \<le> 90 then Some (n - 65)
         else if 97 \<le> n \<and> n \<le> 122 then Some (n - 71)
         else if 48 \<le> n \<and> n \<le> 57 then Some (n + 4)
         else if n = 43 then Some 62
         else if n = 47 then Some 63
         else None)"

text \<open>
  \<^verbatim>\<open>binascii.a2b_base64\<close> outside strict mode: characters that are not base64 digits are
  skipped, a complete pad sequence ends the decoding, and a quad left open at the end of
  the input is an error.  The arguments are the C loop's \<^verbatim>\<open>quad_pos\<close>, \<^verbatim>\<open>leftchar\<close>,
  \<^verbatim>\<open>pads\<close> and the bytes written so far.
\<close>

fun a2b_base64 :: "nat \<Rightarrow> nat \<Rightarrow> nat \<Rightarrow> bytes \<Rightarrow> string \<Rightarrow> exn + bytes" where
  "a2b_base64 quad_pos leftchar pads out [] =
     (if quad_pos = 0 then Inr out
      else if quad_pos = 1 then
        Inl (Exn BinasciiError
          (''Invalid base64-encoded string: number of data characters (''
            @ str_of_nat (length out div 3 * 4 + 1)
            @ '') cannot be 1 more than a multiple of 4''))
      else Inl (Exn BinasciiError ''Incorrect padding''))"
| "a2b_base64 quad_pos leftchar pads out (c # cs) =
     (if c = CHR ''='' then
        (if 2 \<le> quad_pos \<and> 4 \<le> quad_pos + (pads + 1) then Inr out
         else a2b_base64 quad_pos leftchar (if 2 \<le> quad_pos then pads + 1 else pads) out cs)
      else
        (case b64_digit c of
           None \<Rightarrow> a2b_base64 quad_pos leftchar pads out cs
         | Some v \<Rightarrow>
             (if quad_pos = 0 then a2b_base64 1 v 0 out cs
              else if quad_pos = 1 then
                a2b_base64 2 (v mod 16) 0 (out @ [of_nat (leftchar * 4 + v div 16)]) cs
              else if quad_pos = 2 then
                a2b_base64 3 (v mod 4) 0 (out @ [of_nat (leftchar * 16 + v div 4)]) cs
              else a2b_base64 0 0 0 (out @ [of_nat (leftchar * 64 + v)]) cs)))"

definition b64decode :: "json \<Rightarrow> exn + bytes" where
  "b64decode s =
     (case s of
        JStr cs \<Rightarrow>
          (if list_all (\<lambda>c. (of_char c :: nat) < 128) cs then a2b_base64 0 0 0 [] cs
           else Inl (Exn ValueError ''string argument should contain only ASCII characters''))
      | _ \<Rightarrow>
          Inl (Exn TypeError
            (''argument should be a bytes-like object or ASCII string, not ''
              @ [CHR 0x27] @ type_name s @ [CHR 0x27])))"

subsection \<open>\<^verbatim>\<open>struct.pack\<close> with a little-endian format\<close>

fun le_bytes :: "nat \<Rightarrow> int \<Rightarrow> bytes" where
  "le_bytes 0 x = []"
| "le_bytes (Suc k) x = word_of_int x # le_bytes k (x div 256)"

datatype field = Fmt_L int | Fmt_H int | Fmt_s bytes

fun pack :: "field list \<Rightarrow> exn + bytes" where
  "pack [] = Inr []"
| "pack (Fmt_L x # fs) =
     (if x < 0 then Inl (Exn StructError ''argument out of range'')
      else if 4294967295 < x then
        Inl (Exn StructError
          ([CHR 0x27] @ ''L'' @ [CHR 0x27] @ '' format requires 0 <= number <= 4294967295''))
      else (case pack fs of Inl e \<Rightarrow> Inl e | Inr bs \<Rightarrow> Inr (le_bytes 4 x @ bs)))"
| "pack (Fmt_H x # fs) =
     (if x < 0 \<or> 65535 < x then
        Inl (Exn StructError ''ushort format requires 0 <= number <= 65535'')
      else (case pack fs of Inl e \<Rightarrow> Inl e | Inr bs \<Rightarrow> Inr (le_bytes 2 x @ bs)))"
| "pack (Fmt_s b # fs) = (case pack fs of Inl e \<Rightarrow> Inl e | Inr bs \<Rightarrow> Inr (b @ bs))"

subsection \<open>\<^verbatim>\<open>io.BytesIO\<close>\<close>

record bytesio =
  buf :: bytes
  pos :: nat

definition BytesIO :: bytesio where
  "BytesIO = \<lparr>buf = [], pos = 0\<rparr>"

definition bio_write :: "bytesio \<Rightarrow> bytes \<Rightarrow> bytesio" where
  "bio_write f d =
     (let b = buf f @ replicate (pos f - length (buf f)) 0
      in \<lparr>buf = take (pos f) b @ d @ drop (pos f + length d) b, pos = pos f + length d\<rparr>)"

definition bio_seek :: "bytesio \<Rightarrow> nat \<Rightarrow> bytesio" where
  "bio_seek f p = f\<lparr>pos := p\<rparr>"

definition bio_tell :: "bytesio \<Rightarrow> nat" where
  "bio_tell f = pos f"

definition getvalue :: "bytesio \<Rightarrow> bytes" where
  "getvalue f = buf f"

subsection \<open>\<^verbatim>\<open>wave.Wave_write\<close>\<close>

text \<open>
  The writer object of the \<^verbatim>\<open>wave\<close> module, field by field.  A method takes the object
  and returns the exception it raised, if any, with the object as the method left it:
  \<^verbatim>\<open>close()\<close> runs on that object when the \<^verbatim>\<open>with\<close> block is left by an exception.
  The host is little-endian, so \<^verbatim>\<open>writeframesraw\<close> does not swap bytes.
\<close>

record wave_write =
  w_file :: bytesio
  w_file_set :: bool
  w_nchannels :: int
  w_sampwidth :: int
  w_framerate :: int
  w_nframes :: int
  w_nframeswritten :: int
  w_datawritten :: int
  w_datalength :: int
  w_headerwritten :: bool
  w_form_length_pos :: nat
  w_data_length_pos :: nat

type_synonym wave_method = "wave_write \<Rightarrow> exn option \<times> wave_write"

definition then_call :: "wave_method \<Rightarrow> wave_method \<Rightarrow> wave_method" where
  "then_call m1 m2 w = (case m1 w of (Some e, w') \<Rightarrow> (Some e, w') | (None, w') \<Rightarrow> m2 w')"

definition Wave_write :: "bytesio \<Rightarrow> wave_write" where
  "Wave_write f =
     \<lparr>w_file = f, w_file_set = True, w_nchannels = 0, w_sampwidth = 0, w_framerate = 0,
      w_nframes = 0, w_nframeswritten = 0, w_datawritten = 0, w_datalength = 0,
      w_headerwritten = False, w_form_length_pos = 0, w_data_length_pos = 0\<rparr>"

definition setnchannels :: "int \<Rightarrow> wave_method" where
  "setnchannels nchannels w =
     (if w_datawritten w \<noteq> 0 then
        (Some (Exn WaveError ''cannot change parameters after starting to write''), w)
      else if nchannels < 1 then (Some (Exn WaveError ''bad # of channels''), w)
      else (None, w\<lparr>w_nchannels := nchannels\<rparr>))"

definition setsampwidth :: "int \<Rightarrow> wave_method" where
  "setsampwidth sampwidth w =
     (if w_datawritten w \<noteq> 0 then
        (Some (Exn WaveError ''cannot change parameters after starting to write''), w)
      else if sampwidth < 1 \<or> 4 < sampwidth then (Some (Exn WaveError ''bad sample width''), w)
      else (None, w\<lparr>w_sampwidth := sampwidth\<rparr>))"

definition setframerate :: "int \<Rightarrow> wave_method" where
  "setframerate framerate w =
     (if w_datawritten w \<noteq> 0 then
        (Some (Exn WaveError ''cannot change parameters after starting to write''), w)
      else if framerate \<le> 0 then (Some (Exn WaveError ''bad frame rate''), w)
      else (None, w\<lparr>w_framerate := framerate\<rparr>))"

definition write_header :: "int \<Rightarrow> wave_method" where
  "write_header initlength w0 =
     (let w1 = w0\<lparr>w_file := bio_write (w_file w0) (ascii ''RIFF'')\<rparr>;
          w2 = (if w_nframes w1 = 0
                then w1\<lparr>w_nframes := initlength div (w_nchannels w1 * w_sampwidth w1)\<rparr>
                else w1);
          w3 = w2\<lparr>w_datalength := w_nframes w2 * w_nchannels w2 * w_sampwidth w2\<rparr>;
          w4 = w3\<lparr>w_form_length_pos := bio_tell (w_file w3)\<rparr>
      in case pack [Fmt_L (36 + w_datalength w4), Fmt_s (ascii ''WAVE''), Fmt_s (ascii ''fmt ''), Fmt_L 16,
                    Fmt_H 1, Fmt_H (w_nchannels w4), Fmt_L (w_framerate w4),
                    Fmt_L (w_nchannels w4 * w_framerate w4 * w_sampwidth w4),
                    Fmt_H (w_nchannels w4 * w_sampwidth w4),
                    Fmt_H (w_sampwidth w4 * 8), Fmt_s (ascii ''data'')] of
           Inl e \<Rightarrow> (Some e, w4)
         | Inr header \<Rightarrow>
             (let w5 = w4\<lparr>w_file := bio_write (w_file w4) header\<rparr>;
                  w6 = w5\<lparr>w_data_length_pos := bio_tell (w_file w5)\<rparr>
              in case pack [Fmt_L (w_datalength w6)] of
                   Inl e \<Rightarrow> (Some e, w6)
                 | Inr sz \<Rightarrow>
                     (None, w6\<lparr>w_file := bio_write (w_file w6) sz,
                                w_headerwritten := True\<rparr>)))"

definition ensure_header_written :: "int \<Rightarrow> wave_method" where
  "ensure_header_written datasize w =
     (if \<not> w_headerwritten w then
        (if w_nchannels w = 0 then (Some (Exn WaveError ''# channels not specified''), w)
         else if w_sampwidth w = 0 then (Some (Exn WaveError ''sample width not specified''), w)
         else if w_framerate w = 0 then (Some (Exn WaveError ''sampling rate not specified''), w)
         else write_header datasize w)
      else (None, w))"

definition patchheader :: wave_method where
  "patchheader w =
     (if w_datawritten w = w_datalength w then (None, w)
      else
        (let curpos = bio_tell (w_file w);
             f1 = bio_seek (w_file w) (w_form_length_pos w)
         in case pack [Fmt_L (36 + w_datawritten w)] of
              Inl e \<Rightarrow> (Some e, w\<lparr>w_file := f1\<rparr>)
            | Inr form_len \<Rightarrow>
                (let f2 = bio_seek (bio_write f1 form_len) (w_data_length_pos w)
                 in case pack [Fmt_L (w_datawritten w)] of
                      Inl e \<Rightarrow> (Some e, w\<lparr>w_file := f2\<rparr>)
                    | Inr sz \<Rightarrow>
                        (None, w\<lparr>w_file := bio_seek (bio_write f2 sz) curpos,
                                  w_datalength := w_datawritten w\<rparr>))))"

definition writeframesraw :: "bytes \<Rightarrow> wave_method" where
  "writeframesraw data =
     then_call (ensure_header_written (int (length data)))
       (\<lambda>w. let nframes = int (length data) div (w_sampwidth w * w_nchannels w)
            in (None, w\<lparr>w_file := bio_write (w_file w) data,
                         w_datawritten := w_datawritten w + int (length data),
                         w_nframeswritten := w_nframeswritten w + nframes\<rparr>))"

definition writeframes :: "bytes \<Rightarrow> wave_method" where
  "writeframes data =
     then_call (writeframesraw data)
       (\<lambda>w. if w_datalength w \<noteq> w_datawritten w then patchheader w else (None, w))"

definition close :: wave_method where
  "close w =
     (case (if w_file_set w then
              then_call (ensure_header_written 0)
                (\<lambda>w. if w_datalength w \<noteq> w_datawritten w then patchheader w else (None, w)) w
            else (None, w)) of
        (raised, w') \<Rightarrow> (raised, w'\<lparr>w_file_set := False\<rparr>))"

section \<open>The container encoder\<close>

text \<open>
  \<^verbatim>\<open>pcm_to_wav\<close>.  Leaving the \<^verbatim>\<open>with\<close> block calls \<^verbatim>\<open>close()\<close>, also when the block raised;
  an exception of \<^verbatim>\<open>close()\<close> replaces the one of the block.
\<close>

definition pcm_to_wav :: "bytes \<Rightarrow> int \<Rightarrow> int \<Rightarrow> int \<Rightarrow> exn + bytes" where
  "pcm_to_wav pcm_data sample_rate channels sample_width =
     (let wav_buffer = BytesIO;
          wav_file = Wave_write wav_buffer
      in case then_call (setnchannels channels)
                (then_call (setsampwidth sample_width)
                  (then_call (setframerate sample_rate) (writeframes pcm_data))) wav_file of
           (raised, w) \<Rightarrow>
             (case close w of
                (Some e, w') \<Rightarrow> Inl e
              | (None, w') \<Rightarrow>
                  (case raised of Some e \<Rightarrow> Inl e | None \<Rightarrow> Inr (getvalue (w_file w')))))"

section \<open>The event stream\<close>

text \<open>
  The SDK's response is a generator.  Pulling the next item either yields an event or
  raises; a call that fails before the first event is the stream \<open>[Raise e]\<close>.  An
  event is a dict of string fields (\<^verbatim>\<open>data\<close>, \<^verbatim>\<open>event\<close>, \<^verbatim>\<open>id\<close>, ...) or some other object.
\<close>

datatype event = NotDict | Dict "(string \<times> string) list"

datatype pull = Yield event | Raise exn

text \<open>
  \<^verbatim>\<open>json.loads\<close> is an argument of the functions below: what is proved of the loop holds
  for every parser.
\<close>

type_synonym loader = "string \<Rightarrow> exn + json"

datatype ctl = Next | Stop

text \<open>
  The body of the inner \<^verbatim>\<open>try\<close> (lines 179 to 183): parse the payload, append the decoded
  audio when the object is an audio event, stop when it carries \<^verbatim>\<open>IsEnd\<close>.  A payload that
  parses to something other than a dict has no \<^verbatim>\<open>get\<close>.
\<close>

definition try_body :: "loader \<Rightarrow> bytes list \<Rightarrow> string \<Rightarrow> exn + (bytes list \<times> ctl)" where
  "try_body json_loads audio_chunks s =
     (case json_loads (strip s) of
        Inl e \<Rightarrow> Inl e
      | Inr (JDict data) \<Rightarrow>
          (case (if dict_get data ''Type'' = JStr ''audio'' \<and> truthy (dict_get data ''Audio'')
                 then (case dict_item data ''Audio'' of
                         Inl e \<Rightarrow> Inl e
                       | Inr a \<Rightarrow>
                           (case b64decode a of
                              Inl e \<Rightarrow> Inl e
                            | Inr b \<Rightarrow> Inr (audio_chunks @ [b])))
                 else Inr audio_chunks) of
             Inl e \<Rightarrow> Inl e
           | Inr chunks \<Rightarrow>
               Inr (chunks, if truthy (dict_get data ''IsEnd'') then Stop else Next))
      | Inr v \<Rightarrow>
          Inl (Exn AttributeError
            ([CHR 0x27] @ type_name v @ [CHR 0x27] @ '' object has no attribute ''
              @ [CHR 0x27] @ ''get'' @ [CHR 0x27])))"

text \<open>
  One turn of the \<^verbatim>\<open>for\<close> loop (lines 177 to 185).  The inner handler catches
  \<^verbatim>\<open>JSONDecodeError\<close> and \<^verbatim>\<open>KeyError\<close> only; anything else leaves the loop.
\<close>

definition handle_event :: "loader \<Rightarrow> bytes list \<Rightarrow> event \<Rightarrow> exn + (bytes list \<times> ctl)" where
  "handle_event json_loads audio_chunks ev =
     (case ev of
        NotDict \<Rightarrow> Inr (audio_chunks, Next)
      | Dict kvs \<Rightarrow>
          (case map_of kvs ''data'' of
             None \<Rightarrow> Inr (audio_chunks, Next)
           | Some s \<Rightarrow>
               (case try_body json_loads audio_chunks s of
                  Inl e \<Rightarrow>
                    (if cls e = JSONDecodeError \<or> cls e = KeyError then Inr (audio_chunks, Next)
                     else Inl e)
                | Inr r \<Rightarrow> Inr r)))"

text \<open>
  The loop (line 176).  The result is what the loop left: the exception or the list
  \<^verbatim>\<open>audio_chunks\<close>, and the items of the stream that were never pulled.
\<close>

fun consume :: "loader \<Rightarrow> bytes list \<Rightarrow> pull list \<Rightarrow> (exn + bytes list) \<times> pull list" where
  "consume json_loads audio_chunks [] = (Inr audio_chunks, [])"
| "consume json_loads audio_chunks (Raise e # resp) = (Inl e, resp)"
| "consume json_loads audio_chunks (Yield ev # resp) =
     (case handle_event json_loads audio_chunks ev of
        Inl e \<Rightarrow> (Inl e, resp)
      | Inr (chunks, Stop) \<Rightarrow> (Inr chunks, resp)
      | Inr (chunks, Next) \<Rightarrow> consume json_loads chunks resp)"

section \<open>The error classifier and the predictor\<close>

text \<open>
  \<^verbatim>\<open>predict\<close> raises \<^verbatim>\<open>ValueError\<close> for a rejected text and \<^verbatim>\<open>RuntimeError\<close> everywhere else;
  the kind names the place that raised.  An exception of \<^verbatim>\<open>pcm_to_wav\<close> is outside every
  handler and escapes as it is.
\<close>

datatype error_kind =
    ValidationError | AuthFailure | InvalidParameter | RateLimited
  | UnknownUpstreamError | EmptyAudio

datatype failure = Failure (kind: error_kind) (message: string) | Escaped exn

definition MAX_TEXT_LENGTH :: nat where
  "MAX_TEXT_LENGTH = 2000"

definition output_path :: string where
  "output_path = ''/tmp/output.wav''"

text \<open>The handler of the outer \<^verbatim>\<open>try\<close> (lines 186 to 201), on \<^verbatim>\<open>error_msg = str(e)\<close>.\<close>

definition classify_error :: "string \<Rightarrow> failure" where
  "classify_error error_msg =
     (if sublist ''AuthFailure'' error_msg then
        Failure AuthFailure
          ''Authentication failed. Please check your SecretId, SecretKey, and SdkAppId.''
      else if sublist ''InvalidParameter'' error_msg then
        Failure InvalidParameter (''Invalid parameter: '' @ error_msg)
      else if sublist ''RequestLimitExceeded'' error_msg then
        Failure RateLimited ''Rate limit exceeded. Please try again later.''
      else Failure UnknownUpstreamError (''TTS API error: '' @ error_msg))"

text \<open>
  \<^verbatim>\<open>predict\<close> from the validation of the text on.  \<open>resp\<close> is the upstream response to the
  request and \<open>fs\<close> the files on disk; the result carries the items of \<open>resp\<close> left
  unpulled and the files afterwards.  Writing the output file is taken to succeed.
\<close>

definition predict ::
  "loader \<Rightarrow> string \<Rightarrow> int \<Rightarrow> pull list \<Rightarrow> (string \<rightharpoonup> bytes)
     \<Rightarrow> (failure + string) \<times> pull list \<times> (string \<rightharpoonup> bytes)" where
  "predict json_loads text sample_rate resp fs =
     (if text = [] \<or> strip text = [] then
        (Inl (Failure ValidationError ''Text cannot be empty''), resp, fs)
      else if MAX_TEXT_LENGTH < length text then
        (Inl (Failure ValidationError
           (''Text too long: '' @ str_of_nat (length text) @ '' characters (max ''
             @ str_of_nat MAX_TEXT_LENGTH @ '')'')), resp, fs)
      else
        (case consume json_loads [] resp of
           (Inl e, rest) \<Rightarrow> (Inl (classify_error (str e)), rest, fs)
         | (Inr audio_chunks, rest) \<Rightarrow>
             (if audio_chunks = [] then
                (Inl (Failure EmptyAudio
                   (''No audio data received from upstream API. ''
                     @ ''Please check your credentials and parameters.'')), rest, fs)
              else
                (let pcm_data = concat audio_chunks
                 in case pcm_to_wav pcm_data sample_rate 1 2 of
                      Inl e \<Rightarrow> (Inl (Escaped e), rest, fs)
                    | Inr wav_data \<Rightarrow> (Inr output_path, rest, fs(output_path \<mapsto> wav_data))))))"

section \<open>Notions the properties are stated with\<close>

text \<open>The object an event carries: the parsed \<^verbatim>\<open>data\<close> field when it is a dict.\<close>

definition payload :: "loader \<Rightarrow> event \<Rightarrow> (string \<times> json) list option" where
  "payload json_loads ev =
     (case ev of
        NotDict \<Rightarrow> None
      | Dict kvs \<Rightarrow>
          (case map_of kvs ''data'' of
             None \<Rightarrow> None
           | Some s \<Rightarrow> (case json_loads (strip s) of Inr (JDict data) \<Rightarrow> Some data | _ \<Rightarrow> None)))"

text \<open>An audio-bearing object: \<^verbatim>\<open>Type\<close> is \<^verbatim>\<open>"audio"\<close> and \<^verbatim>\<open>Audio\<close> is present and not empty.\<close>

definition audio_bearing :: "(string \<times> json) list \<Rightarrow> bool" where
  "audio_bearing data \<longleftrightarrow> dict_get data ''Type'' = JStr ''audio'' \<and> truthy (dict_get data ''Audio'')"

text \<open>The audio frame of an event: the decoded \<^verbatim>\<open>Audio\<close> field of an audio-bearing object.\<close>

definition audio_of :: "loader \<Rightarrow> event \<Rightarrow> bytes option" where
  "audio_of json_loads ev =
     (case payload json_loads ev of
        None \<Rightarrow> None
      | Some data \<Rightarrow>
          (if audio_bearing data
           then (case b64decode (dict_get data ''Audio'') of Inl e \<Rightarrow> None | Inr b \<Rightarrow> Some b)
           else None))"

text \<open>An audio-bearing event whose \<^verbatim>\<open>Audio\<close> field does not decode.\<close>

definition decode_fails :: "loader \<Rightarrow> event \<Rightarrow> bool" where
  "decode_fails json_loads ev =
     (case payload json_loads ev of
        None \<Rightarrow> False
      | Some data \<Rightarrow> audio_bearing data \<and> isl (b64decode (dict_get data ''Audio'')))"

text \<open>An event that carries the end-of-response flag.\<close>

definition is_end :: "loader \<Rightarrow> event \<Rightarrow> bool" where
  "is_end json_loads ev =
     (case payload json_loads ev of None \<Rightarrow> False | Some data \<Rightarrow> truthy (dict_get data ''IsEnd''))"





text \<open>
  Reading a container back: the size field of the data sub-block at bytes 40 to 43,
  and that many bytes from byte 44 on.
\<close>

fun le_value :: "bytes \<Rightarrow> nat" where
  "le_value [] = 0"
| "le_value (b # bs) = unat b + 256 * le_value bs"

definition wav_data_region :: "bytes \<Rightarrow> bytes" where
  "wav_data_region wav = take (le_value (take 4 (drop 40 wav))) (drop 44 wav)"

text \<open>An event at which the loop is left by an exception.\<close>

definition raises :: "loader \<Rightarrow> event \<Rightarrow> bool" where
  "raises json_loads ev = isl (handle_event json_loads [] ev)"

text \<open>A text that passes the validation at the head of \<^verbatim>\<open>predict\<close> (lines 130 to 136).\<close>

definition valid_text :: "string \<Rightarrow> bool" where
  "valid_text text \<longleftrightarrow> text \<noteq> [] \<and> strip text \<noteq> [] \<and> length text \<le> MAX_TEXT_LENGTH"

text \<open>
  The container as the specification lays it out: a field of \<open>len\<close> bytes at offset
  \<open>off\<close>, read as raw bytes or as a little-endian number.
\<close>

definition field_at :: "nat \<Rightarrow> nat \<Rightarrow> bytes \<Rightarrow> bytes" where
  "field_at off len wav = take len (drop off wav)"

definition uint_at :: "nat \<Rightarrow> nat \<Rightarrow> bytes \<Rightarrow> nat" where
  "uint_at off len wav = le_value (field_at off len wav)"

definition riff_container :: "bytes \<Rightarrow> nat \<Rightarrow> nat \<Rightarrow> bool" where
  "riff_container wav n rate \<longleftrightarrow>
     length wav = 44 + n \<and>
     field_at 0 4 wav = ascii ''RIFF'' \<and> uint_at 4 4 wav = 36 + n \<and>
     field_at 8 4 wav = ascii ''WAVE'' \<and>
     field_at 12 4 wav = ascii ''fmt '' \<and> uint_at 16 4 wav = 16 \<and>
     uint_at 20 2 wav = 1 \<and> uint_at 22 2 wav = 1 \<and> uint_at 24 4 wav = rate \<and>
     uint_at 28 4 wav = rate * 1 * 2 \<and> uint_at 32 2 wav = 2 \<and> uint_at 34 2 wav = 16 \<and>
     field_at 36 4 wav = ascii ''data'' \<and> uint_at 40 4 wav = n"

text \<open>The bytes the writer produces for a mono 16-bit payload, header first.\<close>

definition wav_header :: "int \<Rightarrow> int \<Rightarrow> bytes" where
  "wav_header datalength rate =
     ascii ''RIFF'' @ le_bytes 4 (36 + datalength) @ ascii ''WAVE''
       @ ascii ''fmt '' @ le_bytes 4 16 @ le_bytes 2 1 @ le_bytes 2 1 @ le_bytes 4 rate
       @ le_bytes 4 (rate * 2) @ le_bytes 2 2 @ le_bytes 2 16
       @ ascii ''data'' @ le_bytes 4 datalength"

definition wav_layout :: "bytes \<Rightarrow> int \<Rightarrow> bytes" where
  "wav_layout pcm rate = wav_header (int (length pcm)) rate @ pcm"

section \<open>Worked examples\<close>

text \<open>
  The payloads of the examples, and \<^verbatim>\<open>json.loads\<close> on them: \<open>sample_loads\<close> knows these
  five objects and rejects every other text, as \<^verbatim>\<open>json.loads\<close> rejects \<^verbatim>\<open>garbage\<close>.
  \<^verbatim>\<open>QUJDRA==\<close> and \<^verbatim>\<open>RUZHSA==\<close> are the base64 of \<^verbatim>\<open>ABCD\<close> and \<^verbatim>\<open>EFGH\<close>; \<^verbatim>\<open>QUJ\<close> is cut short.
\<close>

definition frame_ABCD :: string where
  "frame_ABCD = ''{\"Type\": \"audio\", \"Audio\": \"QUJDRA==\", \"IsEnd\": false}''"

definition frame_EFGH :: string where
  "frame_EFGH = ''{\"Type\": \"audio\", \"Audio\": \"RUZHSA==\", \"IsEnd\": false}''"

definition frame_end :: string where
  "frame_end = ''{\"Type\": \"audio\", \"Audio\": \"\", \"IsEnd\": true}''"

definition frame_last :: string where
  "frame_last = ''{\"Type\": \"audio\", \"Audio\": \"RUZHSA==\", \"IsEnd\": true}''"

definition frame_bad :: string where
  "frame_bad = ''{\"Type\": \"audio\", \"Audio\": \"QUJ\", \"IsEnd\": false}''"

definition sample_loads :: loader where
  "sample_loads s =
     (if s = frame_ABCD then
        Inr (JDict [(''Type'', JStr ''audio''), (''Audio'', JStr ''QUJDRA==''), (''IsEnd'', JBool False)])
      else if s = frame_EFGH then
        Inr (JDict [(''Type'', JStr ''audio''), (''Audio'', JStr ''RUZHSA==''), (''IsEnd'', JBool False)])
      else if s = frame_end then
        Inr (JDict [(''Type'', JStr ''audio''), (''Audio'', JStr ''''), (''IsEnd'', JBool True)])
      else if s = frame_last then
        Inr (JDict [(''Type'', JStr ''audio''), (''Audio'', JStr ''RUZHSA==''), (''IsEnd'', JBool True)])
      else if s = frame_bad then
        Inr (JDict [(''Type'', JStr ''audio''), (''Audio'', JStr ''QUJ''), (''IsEnd'', JBool False)])
      else Inl (Exn JSONDecodeError ''Expecting value: line 1 column 1 (char 0)''))"

definition sse :: "string \<Rightarrow> pull" where
  "sse s = Yield (Dict [(''data'', s)])"



definition leaking_message :: string where
  "leaking_message = ''Invalid header value: TC3-HMAC-SHA256 Credential=AKIDEXAMPLE0001/2026-11-04/trtc/tc3_request''"

section \<open>Facts about the loop\<close>

lemma dict_item_truthy: "truthy (dict_get d k) \<Longrightarrow> dict_item d k = Inr (dict_get d k)"
  by (simp add: dict_get_def dict_item_def split: option.splits)

lemma a2b_base64_cls: "a2b_base64 q l p out cs = Inl e \<Longrightarrow> cls e = BinasciiError"
proof (induction cs arbitrary: q l p out)
  case Nil
  then show ?case by (auto split: if_splits)
next
  case (Cons c cs)
  show ?case
  proof (cases "c = CHR ''=''")
    case True
    with Cons.prems Cons.IH show ?thesis by (simp split: if_splits)
  next
    case False
    show ?thesis
    proof (cases "b64_digit c")
      case None
      with False Cons.prems Cons.IH show ?thesis by simp
    next
      case (Some v)
      with False Cons.prems Cons.IH show ?thesis by (simp split: if_splits)
    qed
  qed
qed

lemma b64decode_cls:
  "b64decode a = Inl e \<Longrightarrow> cls e \<noteq> JSONDecodeError \<and> cls e \<noteq> KeyError"
  by (cases a) (auto simp: b64decode_def split: if_splits dest: a2b_base64_cls)


lemma handle_event_result:
  assumes "handle_event L acc ev = Inr (chunks, k)"
  shows "chunks = acc @ (case audio_of L ev of None \<Rightarrow> [] | Some b \<Rightarrow> [b])"
  using assms
  by (auto simp: handle_event_def try_body_def audio_of_def payload_def audio_bearing_def
      dict_item_truthy split: event.splits option.splits sum.splits json.splits if_splits)

lemma handle_event_end:
  assumes "is_end L ev"
  shows "handle_event L acc ev \<noteq> Inr (chunks, Next)"
  using assms
  by (auto simp: handle_event_def try_body_def is_end_def payload_def dict_item_truthy
      split: event.splits option.splits sum.splits json.splits if_splits dest: b64decode_cls)


lemma handle_event_frame_end:
  assumes "audio_of L ev = Some b" "is_end L ev"
  shows "handle_event L acc ev = Inr (acc @ [b], Stop)"
  using assms
  by (auto simp: handle_event_def try_body_def audio_of_def is_end_def payload_def audio_bearing_def
      dict_item_truthy split: event.splits option.splits sum.splits json.splits if_splits)



section \<open>Facts about the encoder\<close>

lemma length_le_bytes [simp]: "length (le_bytes k x) = k"
  by (induction k arbitrary: x) simp_all

lemma length_ascii [simp]: "length (ascii s) = length s"
  by (simp add: ascii_def)

lemma length_wav_header [simp]: "length (wav_header d r) = 44"
  by (simp add: wav_header_def del: le_bytes.simps)

lemma bio_write_end:
  "bio_write \<lparr>buf = b, pos = length b\<rparr> d = \<lparr>buf = b @ d, pos = length b + length d\<rparr>"
  by (simp add: bio_write_def Let_def)

lemma write_header_ok:
  assumes "w_nchannels w = 1" "w_sampwidth w = 2" "w_framerate w = r" "w_nframes w = 0"
    "w_file w = \<lparr>buf = [], pos = 0\<rparr>" "0 < r" "r < 2147483648" "0 \<le> n"
    "36 + n div 2 * 2 < 4294967296"
  shows "write_header n w =
    (None, w\<lparr>w_file := \<lparr>buf = wav_header (n div 2 * 2) r, pos = 44\<rparr>,
             w_nframes := n div 2, w_datalength := n div 2 * 2, w_form_length_pos := 4,
             w_data_length_pos := 40, w_headerwritten := True\<rparr>)"
proof -
  have "0 \<le> n div 2 * 2" using assms(8) by simp
  then show ?thesis
    using assms
    by (simp add: write_header_def Let_def bio_write_def bio_tell_def wav_header_def
        del: le_bytes.simps)
qed

lemma patch_sizes:
  assumes "p = 44 + length pcm"
  shows "bio_seek (bio_write (bio_seek (bio_write (bio_seek \<lparr>buf = wav_header d r @ pcm, pos = p\<rparr> 4)
            (le_bytes 4 (36 + n))) 40) (le_bytes 4 n)) p
         = \<lparr>buf = wav_header n r @ pcm, pos = p\<rparr>"
  by (simp add: bio_write_def bio_seek_def Let_def wav_header_def del: le_bytes.simps)

lemma patchheader_ok:
  assumes "w_file w = \<lparr>buf = wav_header d r @ pcm, pos = 44 + length pcm\<rparr>"
    "w_datawritten w = int (length pcm)" "w_datalength w \<noteq> int (length pcm)"
    "w_form_length_pos w = 4" "w_data_length_pos w = 40"
    "36 + int (length pcm) < 4294967296"
  shows "patchheader w =
    (None, w\<lparr>w_file := \<lparr>buf = wav_layout pcm r, pos = 44 + length pcm\<rparr>,
             w_datalength := int (length pcm)\<rparr>)"
  using assms patch_sizes[of "44 + length pcm" pcm d r "int (length pcm)"]
  by (simp add: patchheader_def Let_def bio_tell_def wav_layout_def del: le_bytes.simps)

text \<open>The writer after the three setters.\<close>

lemma setters_ok:
  assumes "0 < r"
  shows "then_call (setnchannels 1) (then_call (setsampwidth 2) (then_call (setframerate r) m))
           (Wave_write BytesIO)
         = m ((Wave_write BytesIO)\<lparr>w_nchannels := 1, w_sampwidth := 2, w_framerate := r\<rparr>)"
  using assms
  by (simp add: then_call_def setnchannels_def setsampwidth_def setframerate_def Wave_write_def)

lemma writeframesraw_ok:
  assumes "0 < r" "r < 2147483648" "36 + int (length pcm) div 2 * 2 < 4294967296"
  shows "writeframesraw pcm ((Wave_write BytesIO)\<lparr>w_nchannels := 1, w_sampwidth := 2, w_framerate := r\<rparr>)
    = (None, (Wave_write BytesIO)\<lparr>w_nchannels := 1, w_sampwidth := 2, w_framerate := r,
         w_file := \<lparr>buf = wav_header (int (length pcm) div 2 * 2) r @ pcm, pos = 44 + length pcm\<rparr>,
         w_nframes := int (length pcm) div 2, w_datalength := int (length pcm) div 2 * 2,
         w_form_length_pos := 4, w_data_length_pos := 40, w_headerwritten := True,
         w_datawritten := int (length pcm), w_nframeswritten := int (length pcm) div 2\<rparr>)"
proof -
  let ?n = "int (length pcm)"
  let ?w0 = "(Wave_write BytesIO)\<lparr>w_nchannels := 1, w_sampwidth := 2, w_framerate := r\<rparr>"
  let ?w1 = "?w0\<lparr>w_file := \<lparr>buf = wav_header (?n div 2 * 2) r, pos = 44\<rparr>,
             w_nframes := ?n div 2, w_datalength := ?n div 2 * 2, w_form_length_pos := 4,
             w_data_length_pos := 40, w_headerwritten := True\<rparr>"
  have h: "write_header ?n ?w0 = (None, ?w1)"
    using assms by (intro write_header_ok) (simp_all add: Wave_write_def BytesIO_def)
  have e: "ensure_header_written ?n ?w0 = (None, ?w1)"
    using h assms(1) by (simp add: ensure_header_written_def Wave_write_def)
  have bw: "bio_write \<lparr>buf = wav_header (?n div 2 * 2) r, pos = 44\<rparr> pcm
      = \<lparr>buf = wav_header (?n div 2 * 2) r @ pcm, pos = 44 + length pcm\<rparr>"
    using bio_write_end[of "wav_header (?n div 2 * 2) r" pcm] by simp
  show ?thesis
    using e bw by (simp add: writeframesraw_def then_call_def Let_def Wave_write_def)
qed

lemma writeframes_ok:
  assumes "0 < r" "r < 2147483648" "36 + int (length pcm) < 4294967296"
  shows "writeframes pcm ((Wave_write BytesIO)\<lparr>w_nchannels := 1, w_sampwidth := 2, w_framerate := r\<rparr>)
    = (None, (Wave_write BytesIO)\<lparr>w_nchannels := 1, w_sampwidth := 2, w_framerate := r,
         w_file := \<lparr>buf = wav_layout pcm r, pos = 44 + length pcm\<rparr>,
         w_nframes := int (length pcm) div 2, w_datalength := int (length pcm),
         w_form_length_pos := 4, w_data_length_pos := 40, w_headerwritten := True,
         w_datawritten := int (length pcm), w_nframeswritten := int (length pcm) div 2\<rparr>)"
proof -
  let ?n = "int (length pcm)"
  have le: "36 + ?n div 2 * 2 < 4294967296" using assms(3) by presburger
  note raw = writeframesraw_ok[OF assms(1,2) le]
  show ?thesis
  proof (cases "?n div 2 * 2 = ?n")
    case True
    then show ?thesis
      using raw by (simp add: writeframes_def then_call_def wav_layout_def Wave_write_def)
  next
    case False
    show ?thesis
      unfolding writeframes_def then_call_def raw
      using False assms(3)
      by (simp add: patchheader_ok[where d = "?n div 2 * 2" and r = r and pcm = pcm] Wave_write_def)
  qed
qed

lemma pcm_to_wav_ok:
  assumes "0 < r" "r < 2147483648" "36 + int (length pcm) < 4294967296"
  shows "pcm_to_wav pcm r 1 2 = Inr (wav_layout pcm r)"
  unfolding pcm_to_wav_def Let_def setters_ok[OF assms(1)] writeframes_ok[OF assms]
  by (simp add: close_def then_call_def ensure_header_written_def getvalue_def Wave_write_def)


lemma pcm_to_wav_rate_low: "r \<le> 0 \<Longrightarrow> isl (pcm_to_wav pcm r 1 2)"
  by (simp add: pcm_to_wav_def Let_def then_call_def setnchannels_def setsampwidth_def
      setframerate_def close_def ensure_header_written_def Wave_write_def)

text \<open>A header that does not fit its fields: the exception leaves the writer without a header,
  and the next attempt fails the same way.\<close>

lemma write_header_fails:
  assumes "w_nchannels w = 1" "w_sampwidth w = 2" "w_framerate w = r"
    "nf = (if w_nframes w = 0 then i div 2 else w_nframes w)"
    "2147483648 \<le> r \<or> 4294967296 \<le> 36 + nf * 2"
  shows "\<exists>e w'. write_header i w = (Some e, w') \<and> w_nchannels w' = 1 \<and> w_sampwidth w' = 2
           \<and> w_framerate w' = r \<and> w_nframes w' = nf
           \<and> w_headerwritten w' = w_headerwritten w \<and> w_file_set w' = w_file_set w"
  using assms
  by (auto simp add: write_header_def Let_def simp del: le_bytes.simps)

lemma close_header_fails:
  assumes "w_nchannels w = 1" "w_sampwidth w = 2" "w_framerate w = r" "0 < r"
    "\<not> w_headerwritten w" "w_file_set w"
    "2147483648 \<le> r \<or> 4294967296 \<le> 36 + w_nframes w * 2"
  shows "\<exists>e w'. close w = (Some e, w')"
proof -
  have "w_nframes w = (if w_nframes w = 0 then 0 div 2 else w_nframes w)" by simp
  from write_header_fails[OF assms(1-3) this assms(7)]
  obtain e w' where "write_header 0 w = (Some e, w')" by blast
  then show ?thesis
    using assms by (simp add: close_def then_call_def ensure_header_written_def)
qed

lemma pcm_to_wav_header_fails:
  assumes "0 < r" "2147483648 \<le> r \<or> 4294967296 \<le> 36 + int (length pcm) div 2 * 2"
  shows "isl (pcm_to_wav pcm r 1 2)"
proof -
  let ?w0 = "(Wave_write BytesIO)\<lparr>w_nchannels := 1, w_sampwidth := 2, w_framerate := r\<rparr>"
  have nf: "int (length pcm) div 2 = (if w_nframes ?w0 = 0 then int (length pcm) div 2 else w_nframes ?w0)"
    by (simp add: Wave_write_def)
  have "\<exists>e w'. write_header (int (length pcm)) ?w0 = (Some e, w') \<and> w_nchannels w' = 1 \<and> w_sampwidth w' = 2
           \<and> w_framerate w' = r \<and> w_nframes w' = int (length pcm) div 2
           \<and> w_headerwritten w' = w_headerwritten ?w0 \<and> w_file_set w' = w_file_set ?w0"
    using assms(2) by (intro write_header_fails[OF _ _ _ nf]) simp_all
  then obtain e w' where w': "write_header (int (length pcm)) ?w0 = (Some e, w')"
    "w_nchannels w' = 1" "w_sampwidth w' = 2" "w_framerate w' = r"
    "w_nframes w' = int (length pcm) div 2" "\<not> w_headerwritten w'" "w_file_set w'"
    by (auto simp: Wave_write_def)
  have wf: "writeframes pcm ?w0 = (Some e, w')"
    using w'(1) assms(1)
    by (simp add: writeframes_def writeframesraw_def then_call_def ensure_header_written_def
        Wave_write_def)
  obtain e' w'' where "close w' = (Some e', w'')"
    using close_header_fails[OF w'(2-4) assms(1) w'(6,7)] assms(2) w'(5) by auto
  then show ?thesis
    unfolding pcm_to_wav_def Let_def setters_ok[OF assms(1)] wf by simp
qed

lemma pcm_to_wav_patch_fails:
  assumes "0 < r" "r < 2147483648" "36 + int (length pcm) div 2 * 2 < 4294967296"
    "4294967296 \<le> 36 + int (length pcm)"
  shows "isl (pcm_to_wav pcm r 1 2)"
proof -
  let ?w0 = "(Wave_write BytesIO)\<lparr>w_nchannels := 1, w_sampwidth := 2, w_framerate := r\<rparr>"
  have ne: "int (length pcm) div 2 * 2 \<noteq> int (length pcm)" using assms(3,4) by linarith
  obtain raised w where wf: "writeframes pcm ?w0 = (raised, w)" by (cases "writeframes pcm ?w0")
  have "raised \<noteq> None \<and> w_headerwritten w \<and> w_file_set w \<and> w_datalength w \<noteq> w_datawritten w
          \<and> w_datawritten w = int (length pcm)"
    using wf ne assms(4)
    unfolding writeframes_def then_call_def writeframesraw_ok[OF assms(1-3)]
    by (auto simp add: patchheader_def Let_def Wave_write_def simp del: le_bytes.simps)
  then have "\<exists>e w'. close w = (Some e, w')"
    using assms(4)
    by (auto simp add: close_def then_call_def ensure_header_written_def patchheader_def Let_def
        simp del: le_bytes.simps)
  then show ?thesis
    unfolding pcm_to_wav_def Let_def setters_ok[OF assms(1)] wf by auto
qed

lemma pcm_to_wav_cases:
  "pcm_to_wav pcm r 1 2 = Inr wav \<longleftrightarrow>
     0 < r \<and> r < 2147483648 \<and> 36 + int (length pcm) < 4294967296 \<and> wav = wav_layout pcm r"
proof (cases "0 < r \<and> r < 2147483648 \<and> 36 + int (length pcm) < 4294967296")
  case True
  then show ?thesis using pcm_to_wav_ok[of r pcm] by auto
next
  case False
  have "isl (pcm_to_wav pcm r 1 2)"
  proof (cases "r \<le> 0")
    case True
    then show ?thesis by (rule pcm_to_wav_rate_low)
  next
    case r: False
    show ?thesis
    proof (cases "2147483648 \<le> r \<or> 4294967296 \<le> 36 + int (length pcm) div 2 * 2")
      case True
      with r show ?thesis by (intro pcm_to_wav_header_fails) simp_all
    next
      case False
      with r \<open>\<not> (0 < r \<and> r < 2147483648 \<and> 36 + int (length pcm) < 4294967296)\<close>
      show ?thesis by (intro pcm_to_wav_patch_fails) simp_all
    qed
  qed
  with False show ?thesis by (auto simp: isl_def)
qed


lemma handle_event_stop:
  assumes "handle_event L acc ev = Inr (chunks, Stop)"
  shows "is_end L ev"
  using assms
  by (auto simp: handle_event_def try_body_def is_end_def payload_def
      split: event.splits option.splits sum.splits json.splits if_splits)

lemma handle_event_isl: "isl (handle_event L acc ev) = isl (handle_event L [] ev)"
  by (auto simp: handle_event_def try_body_def
      split: event.splits option.splits sum.splits json.splits if_splits)


lemma consume_exhausts:
  assumes "\<forall>ev\<in>set evs. \<not> is_end L ev \<and> \<not> raises L ev"
  shows "consume L acc (map Yield evs) = (Inr (acc @ List.map_filter (audio_of L) evs), [])"
  using assms
proof (induction evs arbitrary: acc)
  case Nil
  show ?case by (simp add: List.map_filter_simps)
next
  case (Cons ev evs)
  from Cons.prems have "\<not> isl (handle_event L acc ev)"
    using handle_event_isl[of L acc ev] by (simp add: raises_def)
  then obtain c k where r: "handle_event L acc ev = Inr (c, k)"
    by (cases "handle_event L acc ev") auto
  have k: "k = Next" using r Cons.prems handle_event_stop[of L acc ev c] by (cases k) auto
  have c: "c = acc @ (case audio_of L ev of None \<Rightarrow> [] | Some b \<Rightarrow> [b])"
    using r handle_event_result by blast
  have "consume L c (map Yield evs) = (Inr (c @ List.map_filter (audio_of L) evs), [])"
    using Cons.IH Cons.prems by simp
  then show ?case
    using r k c by (simp add: List.map_filter_simps split: option.splits)
qed

lemma le_value_le_bytes: "0 \<le> x \<Longrightarrow> x < 256 ^ k \<Longrightarrow> le_value (le_bytes k x) = nat x"
proof (induction k arbitrary: x)
  case 0
  then show ?case by simp
next
  case (Suc k)
  have b: "unat (word_of_int x :: 8 word) = nat (x mod 256)"
    by (simp add: unat_eq_nat_uint uint_word_of_int take_bit_eq_mod)
  have "0 \<le> x div 256" "x div 256 < 256 ^ k" using Suc.prems by auto
  then have "le_value (le_bytes k (x div 256)) = nat (x div 256)" by (rule Suc.IH)
  then show ?case using b Suc.prems(1) by (simp add: nat_add_distrib nat_mult_distrib nat_mod_distrib nat_div_distrib)
qed

lemma wav_data_region_layout:
  assumes "36 + int (length pcm) < 4294967296"
  shows "wav_data_region (wav_layout pcm r) = pcm"
proof -
  have "take 4 (drop 40 (wav_layout pcm r)) = le_bytes 4 (int (length pcm))"
    by (simp add: wav_layout_def wav_header_def del: le_bytes.simps)
  moreover have "le_value (le_bytes 4 (int (length pcm))) = length pcm"
    using assms le_value_le_bytes[of "int (length pcm)" 4] by simp
  ultimately show ?thesis by (simp add: wav_data_region_def wav_layout_def)
qed

lemma riff_container_layout:
  assumes "36 + int (length pcm) < 4294967296" "0 < r" "r < 2147483648"
  shows "riff_container (wav_layout pcm r) (length pcm) (nat r)"
proof -
  let ?w = "wav_layout pcm r"
  have v4: "\<And>x. 0 \<le> x \<Longrightarrow> x < 4294967296 \<Longrightarrow> le_value (le_bytes 4 x) = nat x"
    using le_value_le_bytes[of _ 4] by simp
  have v2: "\<And>x. 0 \<le> x \<Longrightarrow> x < 65536 \<Longrightarrow> le_value (le_bytes 2 x) = nat x"
    using le_value_le_bytes[of _ 2] by simp
  have f0: "field_at 0 4 ?w = ascii ''RIFF''"
    by (simp add: field_at_def wav_layout_def wav_header_def del: le_bytes.simps)
  have f4: "field_at 4 4 ?w = le_bytes 4 (36 + int (length pcm))"
    by (simp add: field_at_def wav_layout_def wav_header_def del: le_bytes.simps)
  have f8: "field_at 8 4 ?w = ascii ''WAVE''"
    by (simp add: field_at_def wav_layout_def wav_header_def del: le_bytes.simps)
  have f12: "field_at 12 4 ?w = ascii ''fmt ''"
    by (simp add: field_at_def wav_layout_def wav_header_def del: le_bytes.simps)
  have f16: "field_at 16 4 ?w = le_bytes 4 16"
    by (simp add: field_at_def wav_layout_def wav_header_def del: le_bytes.simps)
  have f20: "field_at 20 2 ?w = le_bytes 2 1"
    by (simp add: field_at_def wav_layout_def wav_header_def del: le_bytes.simps)
  have f22: "field_at 22 2 ?w = le_bytes 2 1"
    by (simp add: field_at_def wav_layout_def wav_header_def del: le_bytes.simps)
  have f24: "field_at 24 4 ?w = le_bytes 4 r"
    by (simp add: field_at_def wav_layout_def wav_header_def del: le_bytes.simps)
  have f28: "field_at 28 4 ?w = le_bytes 4 (r * 2)"
    by (simp add: field_at_def wav_layout_def wav_header_def del: le_bytes.simps)
  have f32: "field_at 32 2 ?w = le_bytes 2 2"
    by (simp add: field_at_def wav_layout_def wav_header_def del: le_bytes.simps)
  have f34: "field_at 34 2 ?w = le_bytes 2 16"
    by (simp add: field_at_def wav_layout_def wav_header_def del: le_bytes.simps)
  have f36: "field_at 36 4 ?w = ascii ''data''"
    by (simp add: field_at_def wav_layout_def wav_header_def del: le_bytes.simps)
  have f40: "field_at 40 4 ?w = le_bytes 4 (int (length pcm))"
    by (simp add: field_at_def wav_layout_def wav_header_def del: le_bytes.simps)
  have u4: "uint_at 4 4 ?w = 36 + length pcm"
    unfolding uint_at_def f4 using assms(1) by (subst v4) simp_all
  have u16: "uint_at 16 4 ?w = 16" unfolding uint_at_def f16 by (subst v4) simp_all
  have u20: "uint_at 20 2 ?w = 1" unfolding uint_at_def f20 by (subst v2) simp_all
  have u22: "uint_at 22 2 ?w = 1" unfolding uint_at_def f22 by (subst v2) simp_all
  have u24: "uint_at 24 4 ?w = nat r" unfolding uint_at_def f24 using assms by (subst v4) simp_all
  have u28: "uint_at 28 4 ?w = nat r * 1 * 2"
    unfolding uint_at_def f28 using assms by (subst v4) (simp_all add: nat_mult_distrib)
  have u32: "uint_at 32 2 ?w = 2" unfolding uint_at_def f32 by (subst v2) simp_all
  have u34: "uint_at 34 2 ?w = 16" unfolding uint_at_def f34 by (subst v2) simp_all
  have u40: "uint_at 40 4 ?w = length pcm"
    unfolding uint_at_def f40 using assms(1) by (subst v4) simp_all
  have len: "length ?w = 44 + length pcm" by (simp add: wav_layout_def)
  show ?thesis
    unfolding riff_container_def
    using len f0 u4 f8 f12 u16 u20 u22 u24 u28 u32 u34 f36 u40 by blast
qed

section \<open>The properties\<close>



text \<open>
  C2, as amended.  For a payload of \<open>n\<close> bytes with \<open>36 + n < 2^32\<close> and a sample rate
  \<open>r\<close> with \<open>0 < r < 2^31\<close>, the encoder returns \<open>44 + n\<close> bytes: \<^verbatim>\<open>RIFF\<close>, the total size
  \<open>36 + n\<close>, \<^verbatim>\<open>WAVE\<close>, the format sub-block (\<^verbatim>\<open>fmt\<close>, its size 16, format tag 1, one
  channel, the sample rate, the byte rate \<open>r * 1 * 2\<close>, block align 2, 16 bits per
  sample) and the data sub-block with declared size \<open>n\<close>.
\<close>

theorem wav_container_layout:
  assumes "36 + int (length pcm) < 4294967296" "0 < rate" "rate < 2147483648"
  shows "\<exists>wav. pcm_to_wav pcm rate 1 2 = Inr wav \<and> riff_container wav (length pcm) (nat rate)"
  using pcm_to_wav_ok[OF assms(2,3,1)] riff_container_layout[OF assms] by simp

theorem wav_container_layout_witness:
  "36 + int (length (ascii ''ABCDEFGH'')) < 4294967296 \<and> (0::int) < 24000 \<and> (24000::int) < 2147483648
   \<and> (\<exists>wav. pcm_to_wav (ascii ''ABCDEFGH'') 24000 1 2 = Inr wav \<and> riff_container wav 8 24000
         \<and> length wav = 52 \<and> uint_at 4 4 wav = 44 \<and> uint_at 40 4 wav = 8)"
proof -
  have h: "36 + int (length (ascii ''ABCDEFGH'')) < 4294967296" "(0::int) < 24000"
    "(24000::int) < 2147483648" by simp_all
  from wav_container_layout[OF h] obtain wav where
    w: "pcm_to_wav (ascii ''ABCDEFGH'') 24000 1 2 = Inr wav"
       "riff_container wav (length (ascii ''ABCDEFGH'')) (nat 24000)" by blast
  have "length (ascii ''ABCDEFGH'') = 8" "nat 24000 = 24000" by simp_all
  with w(2) have "riff_container wav 8 24000" by metis
  moreover from this have "length wav = 52 \<and> uint_at 4 4 wav = 44 \<and> uint_at 40 4 wav = 8"
    by (simp add: riff_container_def)
  ultimately show ?thesis using h w(1) by blast
qed

text \<open>
  C2 as it was written, for every payload and every positive sample rate, fails at the
  rate \<open>2^31\<close>, where the byte rate \<open>2^32\<close> does not fit its 32-bit field and the encoder
  raises, and at a payload of \<open>2^32 - 36\<close> bytes, where the total size does not fit.
\<close>

theorem wav_container_rate_counterexample:
  "(0::int) < 2147483648
   \<and> pcm_to_wav [] 2147483648 1 2
       = Inl (Exn StructError
           ([CHR 0x27] @ ''L'' @ [CHR 0x27] @ '' format requires 0 <= number <= 4294967295''))
   \<and> isl (pcm_to_wav (replicate 4294967260 0) 24000 1 2)"
proof -
  have a: "pcm_to_wav [] 2147483648 1 2
       = Inl (Exn StructError
           ([CHR 0x27] @ ''L'' @ [CHR 0x27] @ '' format requires 0 <= number <= 4294967295''))"
    by code_simp
  have "pcm_to_wav (replicate 4294967260 0) 24000 1 2 \<noteq> Inr wav" for wav
    by (simp add: pcm_to_wav_cases)
  then have b: "isl (pcm_to_wav (replicate 4294967260 0) 24000 1 2)"
    by (cases "pcm_to_wav (replicate 4294967260 0) 24000 1 2") auto
  from a b show ?thesis by simp
qed

text \<open>
  C3.  The stream of a valid frame, a frame whose \<^verbatim>\<open>Audio\<close> is the cut-short \<^verbatim>\<open>QUJ\<close>, a
  second valid frame and the end event: the decoder's exception is not one the inner
  handler catches, so the request fails at the second event, the frames are discarded
  and nothing is written.
\<close>

theorem bad_base64_fails_stream:
  "decode_fails sample_loads (Dict [(''data'', frame_bad)])
   \<and> fst (predict sample_loads ''hello'' 24000
            [sse frame_ABCD, sse frame_bad, sse frame_EFGH, sse frame_end] Map.empty)
       = Inl (Failure UnknownUpstreamError ''TTS API error: Incorrect padding'')
   \<and> fst (snd (predict sample_loads ''hello'' 24000
            [sse frame_ABCD, sse frame_bad, sse frame_EFGH, sse frame_end] Map.empty))
       = [sse frame_EFGH, sse frame_end]
   \<and> snd (snd (predict sample_loads ''hello'' 24000
            [sse frame_ABCD, sse frame_bad, sse frame_EFGH, sse frame_end] Map.empty)) output_path
       = None"
  by code_simp

text \<open>
  C4.  A fault whose text has none of the three markers is reported with the text
  itself after a fixed prefix: the credential inside it reaches the caller.
\<close>

theorem unknown_error_leaks_message:
  "classify_error leaking_message = Failure UnknownUpstreamError (''TTS API error: '' @ leaking_message)
   \<and> sublist ''AKIDEXAMPLE0001'' leaking_message
   \<and> sublist ''AKIDEXAMPLE0001'' (message (classify_error leaking_message))
   \<and> fst (predict sample_loads ''hello'' 24000 [Raise (Exn UpstreamError leaking_message)] Map.empty)
       = Inl (Failure UnknownUpstreamError (''TTS API error: '' @ leaking_message))"
  by code_simp



text \<open>
  C6.  The data region read back from a container the encoder produced is the payload,
  byte for byte; nothing precedes it but the 44-byte header and nothing follows it.
\<close>

theorem data_region_roundtrip:
  assumes "pcm_to_wav pcm rate 1 2 = Inr wav"
  shows "wav_data_region wav = pcm \<and> drop 44 wav = pcm \<and> length wav = 44 + length pcm"
proof -
  from assms have b: "36 + int (length pcm) < 4294967296" and w: "wav = wav_layout pcm rate"
    by (simp_all add: pcm_to_wav_cases)
  show ?thesis
    using wav_data_region_layout[OF b, of rate] w by (simp add: wav_layout_def)
qed

theorem data_region_roundtrip_witness:
  "pcm_to_wav (ascii ''ABC'') 16000 1 2
     = Inr (ascii ''RIFF'' @ [39, 0, 0, 0] @ ascii ''WAVEfmt '' @ [16, 0, 0, 0, 1, 0, 1, 0]
            @ [128, 62, 0, 0, 0, 125, 0, 0, 2, 0, 16, 0] @ ascii ''data'' @ [3, 0, 0, 0] @ ascii ''ABC'')
   \<and> wav_data_region (ascii ''RIFF'' @ [39, 0, 0, 0] @ ascii ''WAVEfmt '' @ [16, 0, 0, 0, 1, 0, 1, 0]
            @ [128, 62, 0, 0, 0, 125, 0, 0, 2, 0, 16, 0] @ ascii ''data'' @ [3, 0, 0, 0] @ ascii ''ABC'')
       = ascii ''ABC''"
proof -
  have h: "pcm_to_wav (ascii ''ABC'') 16000 1 2
     = Inr (ascii ''RIFF'' @ [39, 0, 0, 0] @ ascii ''WAVEfmt '' @ [16, 0, 0, 0, 1, 0, 1, 0]
            @ [128, 62, 0, 0, 0, 125, 0, 0, 2, 0, 16, 0] @ ascii ''data'' @ [3, 0, 0, 0] @ ascii ''ABC'')"
    by code_simp
  from data_region_roundtrip[OF h] h show ?thesis by blast
qed

text \<open>
  C7.  Once an event with the end flag is reached, the loop is left at that event or
  before it: everything behind the end event stays unpulled, and the outcome is the same
  whatever is behind it.
\<close>

theorem no_pull_after_end:
  assumes "is_end json_loads ev"
  shows "\<exists>r n. n \<le> length pre \<and>
          (\<forall>post. consume json_loads acc (pre @ Yield ev # post)
                    = (r, drop (Suc n) (pre @ Yield ev # post)))"
proof (induction pre arbitrary: acc)
  case Nil
  show ?case
  proof (cases "handle_event json_loads acc ev")
    case (Inl e)
    then have "\<forall>post. consume json_loads acc ([] @ Yield ev # post) = (Inl e, drop (Suc 0) ([] @ Yield ev # post))"
      by simp
    then show ?thesis by blast
  next
    case (Inr r)
    obtain c k where r: "r = (c, k)" by (cases r)
    have "k = Stop" using Inr r handle_event_end[OF assms, of acc c] by (cases k) auto
    with Inr r have "\<forall>post. consume json_loads acc ([] @ Yield ev # post) = (Inr c, drop (Suc 0) ([] @ Yield ev # post))"
      by simp
    then show ?thesis by blast
  qed
next
  case (Cons item pre)
  show ?case
  proof (cases item)
    case (Raise e)
    then have "\<forall>post. consume json_loads acc ((item # pre) @ Yield ev # post)
        = (Inl e, drop (Suc 0) ((item # pre) @ Yield ev # post))" by simp
    then show ?thesis by blast
  next
    case (Yield ev')
    show ?thesis
    proof (cases "handle_event json_loads acc ev'")
      case (Inl e)
      with Yield have "\<forall>post. consume json_loads acc ((item # pre) @ Yield ev # post)
        = (Inl e, drop (Suc 0) ((item # pre) @ Yield ev # post))" by simp
      then show ?thesis by blast
    next
      case (Inr r)
      obtain c k where r: "r = (c, k)" by (cases r)
      show ?thesis
      proof (cases k)
        case Stop
        with Yield Inr r have "\<forall>post. consume json_loads acc ((item # pre) @ Yield ev # post)
          = (Inr c, drop (Suc 0) ((item # pre) @ Yield ev # post))" by simp
        then show ?thesis by blast
      next
        case Next
        from Cons.IH[of c] obtain r' n where
          n: "n \<le> length pre"
          and eq: "\<forall>post. consume json_loads c (pre @ Yield ev # post) = (r', drop (Suc n) (pre @ Yield ev # post))"
          by blast
        have "Suc n \<le> length (item # pre)" using n by simp
        moreover have "\<forall>post. consume json_loads acc ((item # pre) @ Yield ev # post)
          = (r', drop (Suc (Suc n)) ((item # pre) @ Yield ev # post))"
          using Yield Inr r Next eq by simp
        ultimately show ?thesis by blast
      qed
    qed
  qed
qed

theorem no_pull_after_end_witness:
  "is_end sample_loads (Dict [(''data'', frame_end)])
   \<and> (\<exists>r n. n \<le> length [sse frame_ABCD] \<and>
          (\<forall>post. consume sample_loads [] ([sse frame_ABCD] @ Yield (Dict [(''data'', frame_end)]) # post)
                    = (r, drop (Suc n) ([sse frame_ABCD] @ Yield (Dict [(''data'', frame_end)]) # post))))
   \<and> consume sample_loads [] ([sse frame_ABCD] @ Yield (Dict [(''data'', frame_end)]) # [sse frame_EFGH])
       = (Inr [ascii ''ABCD''], [sse frame_EFGH])"
proof -
  have h: "is_end sample_loads (Dict [(''data'', frame_end)])" by code_simp
  have c: "consume sample_loads [] ([sse frame_ABCD] @ Yield (Dict [(''data'', frame_end)]) # [sse frame_EFGH])
       = (Inr [ascii ''ABCD''], [sse frame_EFGH])" by code_simp
  from no_pull_after_end[OF h, of "[sse frame_ABCD]" "[]"] h c show ?thesis by blast
qed

text \<open>
  C8.  A response that ends without any end flag, with no event that raises and with at
  least one audio frame, is finalized all the same: the container is written, every
  item has been pulled, and the data region holds all the frames in order.
\<close>

theorem implicit_completion:
  assumes "valid_text text"
    and "\<forall>ev\<in>set evs. \<not> is_end json_loads ev \<and> \<not> raises json_loads ev"
    and "List.map_filter (audio_of json_loads) evs \<noteq> []"
    and "0 < sample_rate" "sample_rate < 2147483648"
    and "36 + int (length (concat (List.map_filter (audio_of json_loads) evs))) < 4294967296"
  shows "\<exists>wav. predict json_loads text sample_rate (map Yield evs) fs
                  = (Inr output_path, [], fs(output_path \<mapsto> wav))
           \<and> wav_data_region wav = concat (List.map_filter (audio_of json_loads) evs)"
proof -
  let ?pcm = "concat (List.map_filter (audio_of json_loads) evs)"
  have c: "consume json_loads [] (map Yield evs)
             = (Inr (List.map_filter (audio_of json_loads) evs), [])"
    using consume_exhausts[OF assms(2), of "[]"] by simp
  have w: "pcm_to_wav ?pcm sample_rate 1 2 = Inr (wav_layout ?pcm sample_rate)"
    using assms(4-6) by (rule pcm_to_wav_ok)
  have "predict json_loads text sample_rate (map Yield evs) fs
          = (Inr output_path, [], fs(output_path \<mapsto> wav_layout ?pcm sample_rate))"
    using assms(1,3) c w by (simp add: predict_def valid_text_def Let_def)
  then show ?thesis using wav_data_region_layout[OF assms(6)] by blast
qed

theorem implicit_completion_witness:
  "valid_text ''hello''
   \<and> map (\<lambda>ev. (is_end sample_loads ev, raises sample_loads ev))
         [Dict [(''data'', frame_ABCD)], Dict [(''data'', frame_EFGH)]]
       = [(False, False), (False, False)]
   \<and> List.map_filter (audio_of sample_loads) [Dict [(''data'', frame_ABCD)], Dict [(''data'', frame_EFGH)]]
       = [ascii ''ABCD'', ascii ''EFGH'']
   \<and> (\<exists>wav. predict sample_loads ''hello'' 24000 [sse frame_ABCD, sse frame_EFGH] Map.empty
                = (Inr output_path, [], [output_path \<mapsto> wav])
          \<and> wav_data_region wav = ascii ''ABCDEFGH'')"
proof -
  let ?evs = "[Dict [(''data'', frame_ABCD)], Dict [(''data'', frame_EFGH)]]"
  have h1: "valid_text ''hello''" by code_simp
  have f: "map (\<lambda>ev. (is_end sample_loads ev, raises sample_loads ev)) ?evs
             = [(False, False), (False, False)]" by code_simp
  have h2: "\<forall>ev\<in>set ?evs. \<not> is_end sample_loads ev \<and> \<not> raises sample_loads ev" by code_simp
  have m: "List.map_filter (audio_of sample_loads) ?evs = [ascii ''ABCD'', ascii ''EFGH'']"
    by code_simp
  have h3: "List.map_filter (audio_of sample_loads) ?evs \<noteq> []" unfolding m by simp
  have cc: "concat [ascii ''ABCD'', ascii ''EFGH''] = ascii ''ABCDEFGH''" by code_simp
  have h6: "36 + int (length (concat (List.map_filter (audio_of sample_loads) ?evs))) < 4294967296"
    unfolding m by simp
  have y: "map Yield ?evs = [sse frame_ABCD, sse frame_EFGH]" by (simp add: sse_def)
  from implicit_completion[OF h1 h2 h3 _ _ h6, of 24000 Map.empty]
  show ?thesis using h1 f m cc y by simp
qed

text \<open>
  C9.  A fault whose text holds the marker \<^verbatim>\<open>AuthFailure\<close> anywhere is classified as an
  authentication failure, and the message is one fixed text: nothing of the fault's own
  text is carried over.
\<close>

theorem auth_failure_fixed_message:
  assumes "valid_text text"
  shows "classify_error (pre @ ''AuthFailure'' @ post)
           = Failure AuthFailure
               ''Authentication failed. Please check your SecretId, SecretKey, and SdkAppId.''
         \<and> predict json_loads text sample_rate (Raise (Exn c (pre @ ''AuthFailure'' @ post)) # resp) fs
             = (Inl (Failure AuthFailure
                  ''Authentication failed. Please check your SecretId, SecretKey, and SdkAppId.''),
                resp, fs)"
proof -
  have "sublist ''AuthFailure'' (pre @ ''AuthFailure'' @ post)" by (rule sublist_appendI)
  then show ?thesis using assms by (simp add: classify_error_def predict_def valid_text_def)
qed

theorem auth_failure_fixed_message_witness:
  "valid_text ''hello''
   \<and> classify_error (''code:'' @ ''AuthFailure'' @ ''.SignatureFailure for SecretId AKIDEXAMPLE0001'')
       = Failure AuthFailure
           ''Authentication failed. Please check your SecretId, SecretKey, and SdkAppId.''
   \<and> predict sample_loads ''hello'' 24000
         (Raise (Exn UpstreamError
            (''code:'' @ ''AuthFailure'' @ ''.SignatureFailure for SecretId AKIDEXAMPLE0001'')) # [])
         Map.empty
       = (Inl (Failure AuthFailure
            ''Authentication failed. Please check your SecretId, SecretKey, and SdkAppId.''),
          [], Map.empty)"
proof -
  have h: "valid_text ''hello''" by code_simp
  from auth_failure_fixed_message[OF h] h show ?thesis by blast
qed

text \<open>
  C10.  An event that carries an audio frame and the end flag together has its frame
  appended before the loop is left.
\<close>

theorem end_event_audio_kept:
  assumes "audio_of json_loads ev = Some b" "is_end json_loads ev"
  shows "consume json_loads acc (Yield ev # resp) = (Inr (acc @ [b]), resp)"
  using handle_event_frame_end[OF assms] by simp

theorem end_event_audio_kept_witness:
  "audio_of sample_loads (Dict [(''data'', frame_last)]) = Some (ascii ''EFGH'')
   \<and> is_end sample_loads (Dict [(''data'', frame_last)])
   \<and> consume sample_loads [ascii ''ABCD''] (Yield (Dict [(''data'', frame_last)]) # [sse frame_ABCD])
       = (Inr ([ascii ''ABCD''] @ [ascii ''EFGH'']), [sse frame_ABCD])"
proof -
  have h1: "audio_of sample_loads (Dict [(''data'', frame_last)]) = Some (ascii ''EFGH'')"
    by code_simp
  have h2: "is_end sample_loads (Dict [(''data'', frame_last)])" by code_simp
  from end_event_audio_kept[OF h1 h2] h1 h2 show ?thesis by blast
qed

end
